theory Spec2Isabelle
  imports Main
begin

section \<open>JavaScript values and strings\<close>

text \<open>
  The backend is one Express module: four route handlers, the bearer-token middleware and a
  few helpers. Request bodies are parsed JSON, so every field a handler destructures is a
  JSON value or \<open>undefined\<close> (\<open>None\<close> below). A JSON number is a double; it is kept by
  its canonical rendering, the text that \<open>String\<close> gives for it (\<open>0\<close> for both zeros),
  which is what the handlers can observe of a number: whether it is zero, and how it prints.
  Strings are sequences of characters; their case mapping is a parameter of the handlers
  that use it.
\<close>

datatype json =
    JNull
  | JBool bool
  | JNum string
  | JStr string
  | JArr "json list"
  | JObj "(string \<times> json) list"

text \<open>What a handler can throw instead of sending a response.\<close>

datatype exn =
    TypeError
  | RegexSyntaxError string
  | RegexUnsupported string
  | LibraryError string

abbreviation bslash :: char where
  "bslash \<equiv> CHR 0x5C"

abbreviation newline :: char where
  "newline \<equiv> CHR 0x0A"

text \<open>Truthiness, as \<open>!x\<close> and \<open>if (x)\<close> see a destructured body field.\<close>

fun truthy :: "json option \<Rightarrow> bool" where
  "truthy None = False"
| "truthy (Some JNull) = False"
| "truthy (Some (JBool b)) = b"
| "truthy (Some (JNum n)) = (n \<noteq> ''0'')"
| "truthy (Some (JStr s)) = (s \<noteq> [])"
| "truthy (Some (JArr xs)) = True"
| "truthy (Some (JObj kvs)) = True"

fun typeof :: "json option \<Rightarrow> string" where
  "typeof None = ''undefined''"
| "typeof (Some JNull) = ''object''"
| "typeof (Some (JBool b)) = ''boolean''"
| "typeof (Some (JNum n)) = ''number''"
| "typeof (Some (JStr s)) = ''string''"
| "typeof (Some (JArr xs)) = ''object''"
| "typeof (Some (JObj kvs)) = ''object''"

text \<open>\<open>String.prototype.split\<close> with a one-character separator.\<close>

fun split :: "char \<Rightarrow> string \<Rightarrow> string list" where
  "split sep [] = [[]]"
| "split sep (c # cs) =
     (if c = sep then [] # split sep cs
      else (case split sep cs of
              [] \<Rightarrow> [[c]]
            | p # ps \<Rightarrow> (c # p) # ps))"

text \<open>
  Decimal rendering of a line count inside a template literal (a count of lines is far below
  the size where a double stops printing as a plain integer).
\<close>

fun digits :: "nat \<Rightarrow> nat \<Rightarrow> string" where
  "digits 0 n = []"
| "digits (Suc fuel) n =
     (if n < 10 then [char_of (48 + n)]
      else digits fuel (n div 10) @ [char_of (48 + n mod 10)])"

definition show_nat :: "nat \<Rightarrow> string" where
  "show_nat n = digits (Suc n) n"

text \<open>\<open>Array.prototype.join\<close> on strings.\<close>

fun join :: "string \<Rightarrow> string list \<Rightarrow> string" where
  "join sep [] = []"
| "join sep [x] = x"
| "join sep (x # y # ys) = x @ sep @ join sep (y # ys)"

text \<open>The results of a list of conversions, or the first exception among them.\<close>

fun collect :: "(exn + string) list \<Rightarrow> exn + string list" where
  "collect [] = Inr []"
| "collect (Inl e # rs) = Inl e"
| "collect (Inr s # rs) = (case collect rs of Inl e \<Rightarrow> Inl e | Inr ss \<Rightarrow> Inr (s # ss))"

text \<open>
  String conversion of a JSON value inside a template literal. An array joins the
  conversions of its elements with commas, \<open>null\<close> elements as the empty string. An object
  parsed from JSON converts through \<open>Object.prototype.toString\<close> to \<open>[object Object]\<close>,
  unless it has a key \<open>toString\<close> of its own: that value is not a function, and the
  conversion is a \<open>TypeError\<close>.
\<close>

fun template_string :: "json \<Rightarrow> exn + string" where
  "template_string JNull = Inr ''null''"
| "template_string (JBool b) = Inr (if b then ''true'' else ''false'')"
| "template_string (JNum n) = Inr n"
| "template_string (JStr s) = Inr s"
| "template_string (JArr xs) =
     (case collect (map (\<lambda>x. if x = JNull then Inr [] else template_string x) xs) of
        Inl e \<Rightarrow> Inl e
      | Inr ss \<Rightarrow> Inr (join '','' ss))"
| "template_string (JObj kvs) =
     (if ''toString'' \<in> fst ` set kvs then Inl TypeError else Inr ''[object Object]'')"

section \<open>Regular-expression literals\<close>

text \<open>
  The review handler holds two regular-expression literals. Their pattern text is parsed
  here as the language parses it, for the part of the pattern grammar the two literals use:
  ordinary characters, \<open>.\<close>, \<open>|\<close>, groups, the quantifiers \<open>*\<close>, \<open>+\<close>, \<open>?\<close>, the
  assertions \<open>^\<close> and \<open>$\<close>, a backslash before a syntax character, and \<open>\s\<close>. Anything
  else is reported as \<open>RegexUnsupported\<close>, never guessed.
\<close>

datatype regex =
    Eps
  | Chr char
  | AnyChar
  | WhiteSpace
  | Bol
  | Eol
  | Cat regex regex
  | Or regex regex
  | Star regex
  | Plus regex
  | Opt regex

text \<open>What the last term of the alternative being read is: nothing that can be repeated,
  an atom, or an atom that already carries a quantifier.\<close>

datatype last_term = NoAtom | Atom | Quantified

record frame =
  alts :: "regex list"
  terms :: "regex list"
  last :: last_term

definition empty_frame :: frame where
  "empty_frame = \<lparr>alts = [], terms = [], last = NoAtom\<rparr>"

text \<open>Both lists of a frame are kept newest first.\<close>

definition alternative_of :: "regex list \<Rightarrow> regex" where
  "alternative_of ts = foldl (\<lambda>acc t. Cat t acc) Eps ts"

fun disjunction_of :: "regex list \<Rightarrow> regex" where
  "disjunction_of [] = Eps"
| "disjunction_of [a] = a"
| "disjunction_of (a # b # bs) = Or (disjunction_of (b # bs)) a"

definition close_frame :: "frame \<Rightarrow> regex" where
  "close_frame f = disjunction_of (alternative_of (terms f) # alts f)"

definition push_term :: "regex \<Rightarrow> last_term \<Rightarrow> frame \<Rightarrow> frame" where
  "push_term t k f = f\<lparr>terms := t # terms f, last := k\<rparr>"

definition syntax_chars :: "char list" where
  "syntax_chars = ''^$.*+?()[]{}|/'' @ [bslash]"

fun parse_pattern :: "frame list \<Rightarrow> string \<Rightarrow> exn + regex" where
  "parse_pattern stk [] =
     (case stk of
        [f] \<Rightarrow> Inr (close_frame f)
      | _ \<Rightarrow> Inl (RegexSyntaxError ''Unterminated group''))"
| "parse_pattern [] (c # cs) = Inl (RegexSyntaxError ''Unmatched )'')"
| "parse_pattern (f # stk) (c # cs) =
     (if c = bslash then
        (case cs of
           [] \<Rightarrow> Inl (RegexSyntaxError ''Backslash at end of pattern'')
         | d # ds \<Rightarrow>
             if d \<in> set syntax_chars then parse_pattern (push_term (Chr d) Atom f # stk) ds
             else if d = CHR ''s'' then parse_pattern (push_term WhiteSpace Atom f # stk) ds
             else Inl (RegexUnsupported [c, d]))
      else if c = CHR ''('' then
        (case cs of
           d # ds \<Rightarrow>
             if d = CHR ''?'' then Inl (RegexUnsupported [c, d])
             else parse_pattern (empty_frame # f # stk) cs
         | [] \<Rightarrow> parse_pattern (empty_frame # f # stk) cs)
      else if c = CHR '')'' then
        (case stk of
           [] \<Rightarrow> Inl (RegexSyntaxError ''Unmatched )'')
         | g # stk' \<Rightarrow> parse_pattern (push_term (close_frame f) Atom g # stk') cs)
      else if c = CHR ''|'' then
        parse_pattern
          (\<lparr>alts = alternative_of (terms f) # alts f, terms = [], last = NoAtom\<rparr> # stk) cs
      else if c = CHR ''*'' \<or> c = CHR ''+'' \<or> c = CHR ''?'' then
        (case (last f, terms f) of
           (Atom, t # ts) \<Rightarrow>
             parse_pattern
               (f\<lparr>terms := (if c = CHR ''*'' then Star t
                              else if c = CHR ''+'' then Plus t else Opt t) # ts,
                   last := Quantified\<rparr> # stk) cs
         | (Quantified, t # ts) \<Rightarrow>
             if c = CHR ''?'' then parse_pattern (f\<lparr>last := NoAtom\<rparr> # stk) cs
             else Inl (RegexSyntaxError ''Nothing to repeat'')
         | _ \<Rightarrow> Inl (RegexSyntaxError ''Nothing to repeat''))
      else if c = CHR ''.'' then parse_pattern (push_term AnyChar Atom f # stk) cs
      else if c = CHR ''^'' then parse_pattern (push_term Bol NoAtom f # stk) cs
      else if c = CHR ''$'' then parse_pattern (push_term Eol NoAtom f # stk) cs
      else if c \<in> set ''[]{}'' then Inl (RegexUnsupported [c])
      else parse_pattern (push_term (Chr c) Atom f # stk) cs)"

definition regex_literal :: "string \<Rightarrow> exn + regex" where
  "regex_literal pattern = parse_pattern [empty_frame] pattern"

text \<open>
  Matching: \<open>ends r s i\<close> lists the positions where a match of \<open>r\<close> that starts at
  position \<open>i\<close> of \<open>s\<close> can end. Neither literal has a flag, so \<open>$\<close> holds at the end of
  the input only and \<open>.\<close> takes any character but a line terminator. A repetition gives up
  an iteration that consumes nothing, as the language does.
\<close>

definition whitespace_chars :: "char list" where
  "whitespace_chars = [CHR 0x09, CHR 0x0A, CHR 0x0B, CHR 0x0C, CHR 0x0D, CHR 0x20, CHR 0xA0]"

definition line_terminators :: "char list" where
  "line_terminators = [CHR 0x0A, CHR 0x0D]"

fun repeat :: "(nat \<Rightarrow> nat list) \<Rightarrow> nat \<Rightarrow> nat list \<Rightarrow> nat list" where
  "repeat step 0 ps = ps"
| "repeat step (Suc fuel) ps =
     (if ps = [] then []
      else ps @ repeat step fuel (remdups (concat (map (\<lambda>p. filter (\<lambda>q. p < q) (step p)) ps))))"

primrec ends :: "regex \<Rightarrow> string \<Rightarrow> nat \<Rightarrow> nat list" where
  "ends Eps s i = [i]"
| "ends (Chr c) s i = (if i < length s \<and> s ! i = c then [Suc i] else [])"
| "ends AnyChar s i =
     (if i < length s \<and> s ! i \<notin> set line_terminators then [Suc i] else [])"
| "ends WhiteSpace s i =
     (if i < length s \<and> s ! i \<in> set whitespace_chars then [Suc i] else [])"
| "ends Bol s i = (if i = 0 then [i] else [])"
| "ends Eol s i = (if i = length s then [i] else [])"
| "ends (Cat a b) s i = concat (map (ends b s) (ends a s i))"
| "ends (Or a b) s i = ends a s i @ ends b s i"
| "ends (Star a) s i = repeat (ends a s) (length s) [i]"
| "ends (Plus a) s i = repeat (ends a s) (length s) (remdups (ends a s i))"
| "ends (Opt a) s i = i # ends a s i"

text \<open>\<open>RegExp.prototype.test\<close> of a literal without flags: a match may start anywhere.\<close>

definition regex_test :: "regex \<Rightarrow> string \<Rightarrow> bool" where
  "regex_test r s = list_ex (\<lambda>i. ends r s i \<noteq> []) [0..<Suc (length s)]"

section \<open>Users, tokens and what lies outside the repository\<close>

text \<open>
  The user collection is the JSON array of \<open>data/users.json\<close>, read and rewritten whole;
  the file is taken to exist and to hold a well-formed array, and requests are handled one at
  a time. A user's \<open>email\<close> is whatever truthy JSON value the registration request
  carried; the id, the hash and the creation date are strings produced by the server.
\<close>

record user =
  user_id :: string
  user_email :: json
  passwordHash :: string
  createdAt :: string

record payload =
  payload_id :: string
  payload_email :: json

text \<open>
  The handlers take as parameters what the repository does not contain:
  \<^item> \<open>lower_case\<close>, the case mapping of \<open>String.prototype.toLowerCase\<close>, which follows
    the Unicode tables of the language;
  \<^item> \<open>hash_string\<close> and \<open>compare_string\<close>, what \<open>bcryptjs\<close> computes for a string
    password (with cost 10 and the salt of this call) and for a string password and a hash;
  \<^item> \<open>jwt_sign L p now\<close>, which is \<open>jwt.sign(p, JWT_SECRET, { expiresIn: '7d' })\<close> called
    at time \<open>now\<close>, and \<open>jwt_verify L t now\<close>, which is
    \<open>jwt.verify(t, JWT_SECRET)\<close> called at time \<open>now\<close> and may throw.
\<close>

record libs =
  lower_case :: "string \<Rightarrow> string"
  hash_string :: "string \<Rightarrow> string"
  compare_string :: "string \<Rightarrow> string \<Rightarrow> bool"
  jwt_sign :: "payload \<Rightarrow> nat \<Rightarrow> string"
  jwt_verify :: "string \<Rightarrow> nat \<Rightarrow> exn + payload"

text \<open>
  Only strings have the method \<open>toLowerCase\<close>: on any other JSON value the call is a
  \<open>TypeError\<close>.
\<close>

fun toLowerCase :: "libs \<Rightarrow> json \<Rightarrow> exn + string" where
  "toLowerCase L (JStr s) = Inr (lower_case L s)"
| "toLowerCase L _ = Inl TypeError"

text \<open>
  \<open>bcrypt.hash(password, 10)\<close> and \<open>bcrypt.compare(password, hash)\<close>: \<open>bcryptjs\<close>
  checks the types of its arguments first and fails with \<open>Illegal arguments\<close>, naming
  the two types, when the password is not a string.
\<close>

definition bcrypt_hash :: "libs \<Rightarrow> json \<Rightarrow> exn + string" where
  "bcrypt_hash L password =
     (case password of
        JStr s \<Rightarrow> Inr (hash_string L s)
      | _ \<Rightarrow> Inl (LibraryError (''Illegal arguments: '' @ typeof (Some password)
                                  @ '', number'')))"

definition bcrypt_compare :: "libs \<Rightarrow> json \<Rightarrow> string \<Rightarrow> exn + bool" where
  "bcrypt_compare L password hash =
     (case password of
        JStr s \<Rightarrow> Inr (compare_string L s hash)
      | _ \<Rightarrow> Inl (LibraryError (''Illegal arguments: '' @ typeof (Some password)
                                  @ '', string'')))"

record response =
  status :: nat
  body :: json

definition error_body :: "string \<Rightarrow> json" where
  "error_body msg = JObj [(''error'', JStr msg)]"

definition generateToken :: "libs \<Rightarrow> user \<Rightarrow> nat \<Rightarrow> string" where
  "generateToken L u now =
     jwt_sign L \<lparr>payload_id = user_id u, payload_email = user_email u\<rparr> now"

text \<open>
  \<open>users.find(u => u.email.toLowerCase() === email.toLowerCase())\<close>: the callback runs on
  each user in order until one matches, and throws where either side is not a string.
\<close>

fun findUserByEmail :: "libs \<Rightarrow> user list \<Rightarrow> json \<Rightarrow> exn + user option" where
  "findUserByEmail L [] email = Inr None"
| "findUserByEmail L (u # us) email =
     (case toLowerCase L (user_email u) of
        Inl e \<Rightarrow> Inl e
      | Inr a \<Rightarrow>
          (case toLowerCase L email of
             Inl e \<Rightarrow> Inl e
           | Inr b \<Rightarrow> if a = b then Inr (Some u) else findUserByEmail L us email))"

definition auth_body :: "string \<Rightarrow> user \<Rightarrow> json" where
  "auth_body token u =
     JObj [(''token'', JStr token),
           (''user'', JObj [(''id'', JStr (user_id u)), (''email'', user_email u)])]"

section \<open>The auth routes\<close>

text \<open>
  \<open>POST /auth/register\<close>. The result pairs what the handler sends (or throws) with the
  user collection on disk afterwards; \<open>uuid\<close> and \<open>date\<close> are the values of
  \<open>uuidv4()\<close> and \<open>new Date().toISOString()\<close> of this request. A field that passed
  the truthiness guard is present, so the last case of the handler is never taken.
\<close>

definition register ::
  "libs \<Rightarrow> user list \<Rightarrow> json option \<Rightarrow> json option \<Rightarrow> string \<Rightarrow> string \<Rightarrow> nat
    \<Rightarrow> (exn + response) \<times> user list" where
  "register L users email password uuid date now =
     (if \<not> truthy email \<or> \<not> truthy password then
        (Inr \<lparr>status = 400, body = error_body ''email and password required''\<rparr>, users)
      else
        (case (email, password) of
           (Some e, Some p) \<Rightarrow>
             (case findUserByEmail L users e of
                Inl x \<Rightarrow> (Inl x, users)
              | Inr (Some existing) \<Rightarrow>
                  (Inr \<lparr>status = 409, body = error_body ''user already exists''\<rparr>, users)
              | Inr None \<Rightarrow>
                  (case bcrypt_hash L p of
                     Inl x \<Rightarrow> (Inl x, users)
                   | Inr hashed \<Rightarrow>
                       (let newUser = \<lparr>user_id = uuid, user_email = e,
                                       passwordHash = hashed, createdAt = date\<rparr>
                        in (Inr \<lparr>status = 200,
                                 body = auth_body (generateToken L newUser now) newUser\<rparr>,
                            users @ [newUser]))))
         | _ \<Rightarrow> (Inl TypeError, users)))"

text \<open>\<open>POST /auth/login\<close> never writes the collection.\<close>

definition login ::
  "libs \<Rightarrow> user list \<Rightarrow> json option \<Rightarrow> json option \<Rightarrow> nat \<Rightarrow> exn + response" where
  "login L users email password now =
     (if \<not> truthy email \<or> \<not> truthy password then
        Inr \<lparr>status = 400, body = error_body ''email and password required''\<rparr>
      else
        (case (email, password) of
           (Some e, Some p) \<Rightarrow>
             (case findUserByEmail L users e of
                Inl x \<Rightarrow> Inl x
              | Inr None \<Rightarrow> Inr \<lparr>status = 401, body = error_body ''invalid credentials''\<rparr>
              | Inr (Some u) \<Rightarrow>
                  (case bcrypt_compare L p (passwordHash u) of
                     Inl x \<Rightarrow> Inl x
                   | Inr ok \<Rightarrow>
                       if \<not> ok then
                         Inr \<lparr>status = 401, body = error_body ''invalid credentials''\<rparr>
                       else
                         Inr \<lparr>status = 200, body = auth_body (generateToken L u now) u\<rparr>))
         | _ \<Rightarrow> Inl TypeError))"

section \<open>The bearer-token middleware\<close>

datatype gate = Rejected response | Next payload

definition authMiddleware :: "libs \<Rightarrow> nat \<Rightarrow> string option \<Rightarrow> gate" where
  "authMiddleware L now auth =
     (case auth of
        None \<Rightarrow> Rejected \<lparr>status = 401, body = error_body ''missing authorization''\<rparr>
      | Some a \<Rightarrow>
          if a = [] then
            Rejected \<lparr>status = 401, body = error_body ''missing authorization''\<rparr>
          else
            (let parts = split CHR '' '' a in
             if length parts \<noteq> 2 then
               Rejected \<lparr>status = 401, body = error_body ''invalid authorization header''\<rparr>
             else
               (case jwt_verify L (parts ! 1) now of
                  Inl e \<Rightarrow> Rejected \<lparr>status = 401, body = error_body ''invalid token''\<rparr>
                | Inr p \<Rightarrow> Next p)))"

section \<open>The review route\<close>

definition hasConsole_pattern :: string where
  "hasConsole_pattern =
     ''console'' @ [bslash, bslash] @ ''.log|print'' @ [bslash, bslash] @ ''(|System''
       @ [bslash, bslash] @ ''.out'' @ [bslash, bslash] @ ''.println''"

definition trailingWhitespace_pattern :: string where
  "trailingWhitespace_pattern = [bslash, bslash] @ ''s+$''"

definition large_file_msg :: string where
  "large_file_msg = ''File is large (>200 lines). Consider splitting into modules.''"

definition debug_print_msg :: string where
  "debug_print_msg = ''Found debug print statements. Remove or guard them in production.''"

definition trailing_spaces_msg :: string where
  "trailing_spaces_msg = ''There appear to be trailing spaces on the last line.''"

definition no_issues_msg :: string where
  "no_issues_msg = ''No obvious issues detected by the heuristic review.''"

text \<open>The four \<open>push\<close> statements, from the line count and the two test results.\<close>

definition build_suggestions :: "nat \<Rightarrow> bool \<Rightarrow> bool \<Rightarrow> string list" where
  "build_suggestions lines hasConsole trailingWhitespace =
     (let suggestions =
            (if 200 < lines then [large_file_msg] else [])
          @ (if hasConsole then [debug_print_msg] else [])
          @ (if trailingWhitespace then [trailing_spaces_msg] else [])
      in if length suggestions = 0 then suggestions @ [no_issues_msg] else suggestions)"

text \<open>
  A regular-expression literal whose pattern is not valid is an early \<open>SyntaxError\<close> of
  the function that holds it: the handler cannot be compiled, and none of its statements
  runs, not even the guard on \<open>code\<close>. So the two literals of the handler are compiled
  first, in the order of the source.
\<close>

definition review_literals :: "exn + (regex \<times> regex)" where
  "review_literals =
     (case regex_literal hasConsole_pattern of
        Inl e \<Rightarrow> Inl e
      | Inr console_re \<Rightarrow>
          (case regex_literal trailingWhitespace_pattern of
             Inl e \<Rightarrow> Inl e
           | Inr trailing_re \<Rightarrow> Inr (console_re, trailing_re)))"

text \<open>The suggestion list of the handler for a string \<open>code\<close>.\<close>

definition review_suggestions :: "string \<Rightarrow> exn + string list" where
  "review_suggestions code =
     (case review_literals of
        Inl e \<Rightarrow> Inl e
      | Inr (console_re, trailing_re) \<Rightarrow>
          (let lines = length (split newline code) in
           Inr (build_suggestions lines (regex_test console_re code)
                  (regex_test trailing_re code))))"

definition reviewMarkdown :: "nat \<Rightarrow> string \<Rightarrow> string list \<Rightarrow> string" where
  "reviewMarkdown lines author suggestions =
     join [bslash, CHR ''n'']
       [''# Automated Review'',
        ''**Lines:** '' @ show_nat lines,
        ''**Author:** '' @ author,
        [],
        ''## Suggestions'',
        join [bslash, CHR ''n''] (map (\<lambda>s. ''- '' @ s) suggestions),
        [],
        ''## Tips'',
        ''- Run a linter (ESLint / flake8) for deeper checks.'',
        ''- Add unit tests for critical logic.'']"

text \<open>
  The handler of \<open>POST /ai/get-review\<close>, run with the payload the middleware stored.
  A \<open>code\<close> that passed the guard is a string, so the last case is never taken.
\<close>

definition get_review :: "payload \<Rightarrow> json option \<Rightarrow> exn + response" where
  "get_review reqUser code =
     (case review_literals of
        Inl e \<Rightarrow> Inl e
      | Inr (console_re, trailing_re) \<Rightarrow>
          if \<not> truthy code \<or> typeof code \<noteq> ''string'' then
            Inr \<lparr>status = 400, body = error_body ''code required''\<rparr>
          else
            (case code of
               Some (JStr text) \<Rightarrow>
                 (let lines = length (split newline text);
                      suggestions = build_suggestions lines (regex_test console_re text)
                                      (regex_test trailing_re text)
                  in case template_string (payload_email reqUser) of
                       Inl e \<Rightarrow> Inl e
                     | Inr author \<Rightarrow>
                         Inr \<lparr>status = 200,
                              body = JObj [(''review'',
                                JStr (reviewMarkdown lines author suggestions))]\<rparr>)
             | _ \<Rightarrow> Inl TypeError))"

definition get_review_route ::
  "libs \<Rightarrow> nat \<Rightarrow> string option \<Rightarrow> json option \<Rightarrow> exn + response" where
  "get_review_route L now auth code =
     (case authMiddleware L now auth of
        Rejected r \<Rightarrow> Inr r
      | Next reqUser \<Rightarrow> get_review reqUser code)"

section \<open>The \<open>/me\<close> route\<close>

definition me :: "user list \<Rightarrow> payload \<Rightarrow> response" where
  "me users reqUser =
     (case find (\<lambda>x. user_id x = payload_id reqUser) users of
        None \<Rightarrow> \<lparr>status = 404, body = error_body ''not found''\<rparr>
      | Some u \<Rightarrow>
          \<lparr>status = 200,
           body = JObj [(''user'', JObj [(''id'', JStr (user_id u)),
                                          (''email'', user_email u),
                                          (''createdAt'', JStr (createdAt u))])]\<rparr>)"

definition me_route :: "libs \<Rightarrow> nat \<Rightarrow> user list \<Rightarrow> string option \<Rightarrow> exn + response" where
  "me_route L now users auth =
     (case authMiddleware L now auth of
        Rejected r \<Rightarrow> Inr r
      | Next reqUser \<Rightarrow> Inr (me users reqUser))"

section \<open>Instances for evaluation\<close>

text \<open>
  A small instance of the parameters, to run the handlers on concrete requests. Its case
  mapping folds the ASCII letters, which is what \<open>toLowerCase\<close> does on a string of ASCII
  characters, and the requests below hold no other; hashing marks the password; and the one
  token \<open>tok\<close> verifies, for seven days, to the payload of the user below.
\<close>

definition example_libs :: libs where
  "example_libs =
     \<lparr>lower_case = map (\<lambda>c. let n = (of_char c :: nat)
                              in if 65 \<le> n \<and> n \<le> 90 then char_of (n + 32) else c),
      hash_string = (\<lambda>s. ''hash:'' @ s),
      compare_string = (\<lambda>s h. h = ''hash:'' @ s),
      jwt_sign = (\<lambda>p now. ''tok''),
      jwt_verify = (\<lambda>t now. if t = ''tok'' \<and> now < 604800
                              then Inr \<lparr>payload_id = ''u1'', payload_email = JStr ''a@x.com''\<rparr>
                              else Inl (LibraryError ''invalid token''))\<rparr>"

definition example_user :: user where
  "example_user = \<lparr>user_id = ''u1'', user_email = JStr ''a@x.com'',
                    passwordHash = ''hash:p1'', createdAt = ''2024-01-01T00:00:00.000Z''\<rparr>"

text \<open>
  What \<open>jsonwebtoken\<close> promises for one token: signed at \<open>issued\<close> and verified at
  \<open>presented\<close> (with the same secret, before it expires) it gives back the payload it was
  signed for; and its compact form holds no space.
\<close>

definition jwt_round_trip :: "libs \<Rightarrow> payload \<Rightarrow> nat \<Rightarrow> nat \<Rightarrow> bool" where
  "jwt_round_trip L p issued presented =
     (jwt_verify L (jwt_sign L p issued) presented = Inr p
      \<and> CHR '' '' \<notin> set (jwt_sign L p issued))"

section \<open>The review heuristic\<close>

lemma hasConsole_pattern_invalid:
  "regex_literal hasConsole_pattern = Inl (RegexSyntaxError ''Unterminated group'')"
  by code_simp

lemma trailingWhitespace_pattern_parsed:
  "regex_literal trailingWhitespace_pattern =
     Inr (Cat (Chr bslash) (Cat (Plus (Chr CHR ''s'')) (Cat Eol Eps)))"
  by code_simp

text \<open>
  In \<open>hasConsole\<close> every backslash of the pattern is doubled. A doubled backslash is an
  escaped backslash, so the \<open>(\<close> after \<open>print\<close> is not escaped: it opens a group that
  nothing closes. The handler therefore produces no suggestion list, whatever the text.
\<close>

lemma review_literals_invalid:
  "review_literals = Inl (RegexSyntaxError ''Unterminated group'')"
  by (simp add: review_literals_def hasConsole_pattern_invalid)

lemma review_suggestions_throws:
  "review_suggestions code = Inl (RegexSyntaxError ''Unterminated group'')"
  by (simp add: review_suggestions_def review_literals_invalid)

lemma get_review_throws:
  "get_review reqUser code = Inl (RegexSyntaxError ''Unterminated group'')"
  by (simp add: get_review_def review_literals_invalid)

text \<open>The list itself is built as intended from the line count and the two test results.\<close>

lemma build_suggestions_large:
  "(large_file_msg \<in> set (build_suggestions n hc tw)) = (200 < n)"
  by (simp add: build_suggestions_def large_file_msg_def debug_print_msg_def
        trailing_spaces_msg_def no_issues_msg_def)

lemma build_suggestions_debug:
  "(debug_print_msg \<in> set (build_suggestions n hc tw)) = hc"
  by (simp add: build_suggestions_def large_file_msg_def debug_print_msg_def
        trailing_spaces_msg_def no_issues_msg_def)

lemma build_suggestions_trailing:
  "(trailing_spaces_msg \<in> set (build_suggestions n hc tw)) = tw"
  by (simp add: build_suggestions_def large_file_msg_def debug_print_msg_def
        trailing_spaces_msg_def no_issues_msg_def)

lemma build_suggestions_none:
  "(build_suggestions n hc tw = [no_issues_msg]) = (n \<le> 200 \<and> \<not> hc \<and> \<not> tw)"
  by (auto simp add: build_suggestions_def large_file_msg_def debug_print_msg_def
        trailing_spaces_msg_def no_issues_msg_def)

lemma split_not_Nil: "split sep s \<noteq> []"
  by (induction s) (auto split: list.splits)

lemma length_split: "length (split sep s) = Suc (length (filter (\<lambda>c. c = sep) s))"
  by (induction s) (auto split: list.splits simp: split_not_Nil)

text \<open>
  C1. A text with a \<open>console.log\<close> call should get the debug-print suggestion. At
  \<open>console.log(1)\<close> the handler gives no list at all, because the literal is not a valid
  pattern; and the first alternative taken alone, \<open>console\\.log\<close>, asks for a backslash
  after \<open>console\<close>, so it would not find the call either.
\<close>

theorem debug_print_not_reported:
  "review_suggestions ''console.log(1)'' = Inl (RegexSyntaxError ''Unterminated group'')
   \<and> regex_literal (''console'' @ [bslash, bslash] @ ''.log'')
       = Inr (Cat (Chr CHR ''c'') (Cat (Chr CHR ''o'') (Cat (Chr CHR ''n'') (Cat (Chr CHR ''s'')
           (Cat (Chr CHR ''o'') (Cat (Chr CHR ''l'') (Cat (Chr CHR ''e'') (Cat (Chr bslash)
           (Cat AnyChar (Cat (Chr CHR ''l'') (Cat (Chr CHR ''o'') (Cat (Chr CHR ''g'')
             Eps))))))))))))
   \<and> (case regex_literal (''console'' @ [bslash, bslash] @ ''.log'') of
         Inl e \<Rightarrow> False
       | Inr r \<Rightarrow> \<not> regex_test r ''console.log(1)''
                 \<and> regex_test r (''console'' @ [bslash] @ ''xlog''))"
proof (intro conjI)
  show "review_suggestions ''console.log(1)'' = Inl (RegexSyntaxError ''Unterminated group'')"
    by (rule review_suggestions_throws)
  show "regex_literal (''console'' @ [bslash, bslash] @ ''.log'')
       = Inr (Cat (Chr CHR ''c'') (Cat (Chr CHR ''o'') (Cat (Chr CHR ''n'') (Cat (Chr CHR ''s'')
           (Cat (Chr CHR ''o'') (Cat (Chr CHR ''l'') (Cat (Chr CHR ''e'') (Cat (Chr bslash)
           (Cat AnyChar (Cat (Chr CHR ''l'') (Cat (Chr CHR ''o'') (Cat (Chr CHR ''g'')
             Eps))))))))))))"
    by code_simp
  show "case regex_literal (''console'' @ [bslash, bslash] @ ''.log'') of
         Inl e \<Rightarrow> False
       | Inr r \<Rightarrow> \<not> regex_test r ''console.log(1)''
                 \<and> regex_test r (''console'' @ [bslash] @ ''xlog'')"
    by code_simp
qed

text \<open>
  C2. A text whose last line ends in spaces should get the trailing-whitespace suggestion.
  At \<open>a\<close> followed by two spaces the handler gives no list; and the pattern of
  \<open>trailingWhitespace\<close>, whose backslash is doubled too, is a backslash followed by letters
  \<open>s\<close> at the end of the text, which two spaces do not match.
\<close>

theorem trailing_whitespace_not_reported:
  "review_suggestions ''a  '' = Inl (RegexSyntaxError ''Unterminated group'')
   \<and> regex_literal trailingWhitespace_pattern
       = Inr (Cat (Chr bslash) (Cat (Plus (Chr CHR ''s'')) (Cat Eol Eps)))
   \<and> \<not> regex_test (Cat (Chr bslash) (Cat (Plus (Chr CHR ''s'')) (Cat Eol Eps))) ''a  ''
   \<and> regex_test (Cat (Chr bslash) (Cat (Plus (Chr CHR ''s'')) (Cat Eol Eps)))
       (''a'' @ [bslash] @ ''ss'')"
proof (intro conjI)
  show "review_suggestions ''a  '' = Inl (RegexSyntaxError ''Unterminated group'')"
    by (rule review_suggestions_throws)
  show "regex_literal trailingWhitespace_pattern
       = Inr (Cat (Chr bslash) (Cat (Plus (Chr CHR ''s'')) (Cat Eol Eps)))"
    by (rule trailingWhitespace_pattern_parsed)
  show "\<not> regex_test (Cat (Chr bslash) (Cat (Plus (Chr CHR ''s'')) (Cat Eol Eps))) ''a  ''"
    by code_simp
  show "regex_test (Cat (Chr bslash) (Cat (Plus (Chr CHR ''s'')) (Cat Eol Eps)))
       (''a'' @ [bslash] @ ''ss'')"
    by code_simp
qed

text \<open>
  C3. The text of the three lines \<open>a\<close>, \<open>b\<close>, \<open>c\<close> should give exactly the
  no-obvious-issues suggestion. The handler counts three lines and then fails at the
  \<open>hasConsole\<close> literal, so neither a list nor a response comes out.
\<close>

theorem review_three_lines_throws:
  "length (split newline ''a\<newline>b\<newline>c'') = 3
   \<and> review_suggestions ''a\<newline>b\<newline>c'' = Inl (RegexSyntaxError ''Unterminated group'')
   \<and> get_review reqUser (Some (JStr ''a\<newline>b\<newline>c''))
       = Inl (RegexSyntaxError ''Unterminated group'')"
  by (simp add: review_suggestions_throws get_review_throws)

theorem review_three_lines_throws_witness:
  "get_review \<lparr>payload_id = ''u1'', payload_email = JStr ''a@x.com''\<rparr>
     (Some (JStr ''a\<newline>b\<newline>c''))
     = Inl (RegexSyntaxError ''Unterminated group'')"
  using review_three_lines_throws [of "\<lparr>payload_id = ''u1'', payload_email = JStr ''a@x.com''\<rparr>"]
  by simp

text \<open>
  C4. A text of 201 lines or more should get the large-file suggestion, and a shorter one
  should not. A text of 200 newlines has 201 lines, and the handler fails at the
  \<open>hasConsole\<close> literal before any suggestion is pushed.
\<close>

theorem large_file_not_reported:
  "length (split newline (replicate 200 newline)) = 201
   \<and> review_suggestions (replicate 200 newline) = Inl (RegexSyntaxError ''Unterminated group'')
   \<and> get_review reqUser (Some (JStr (replicate 200 newline)))
       = Inl (RegexSyntaxError ''Unterminated group'')"
  by (simp add: review_suggestions_throws get_review_throws length_split)

theorem large_file_not_reported_witness:
  "get_review \<lparr>payload_id = ''u1'', payload_email = JStr ''a@x.com''\<rparr>
     (Some (JStr (replicate 200 newline)))
     = Inl (RegexSyntaxError ''Unterminated group'')"
  using large_file_not_reported [of "\<lparr>payload_id = ''u1'', payload_email = JStr ''a@x.com''\<rparr>"]
  by simp

section \<open>Registration and login\<close>

lemma findUserByEmail_strings:
  "\<forall>u\<in>set users. \<exists>s. user_email u = JStr s \<Longrightarrow>
     findUserByEmail L users (JStr e)
       = Inr (find (\<lambda>u. toLowerCase L (user_email u) = Inr (lower_case L e)) users)"
  by (induction users) auto

lemma findUserByEmail_member: "findUserByEmail L users e = Inr (Some u) \<Longrightarrow> u \<in> set users"
  by (induction users) (auto split: sum.splits if_splits)

lemma find_example_user_other:
  "findUserByEmail example_libs [example_user] (JStr ''b@x.com'') = Inr None"
  by code_simp

lemma find_example_user_same:
  "findUserByEmail example_libs [example_user] (JStr ''a@x.com'') = Inr (Some example_user)"
  by code_simp

lemma find_example_user_upper:
  "findUserByEmail example_libs [example_user] (JStr ''A@X.com'') = Inr (Some example_user)"
  by code_simp

text \<open>
  For the passwords that are strings the two failures of a login look the same: no user for
  the email, and a user whose hash does not compare, both answer 401
  \<open>invalid credentials\<close>.
\<close>

lemma login_same_error:
  assumes "truthy (Some e1)" and "truthy (Some p1)"
    and "findUserByEmail L users1 e1 = Inr None"
    and "truthy (Some e2)" and "s \<noteq> []"
    and "findUserByEmail L users2 e2 = Inr (Some u)"
    and "\<not> compare_string L s (passwordHash u)"
  shows "login L users1 (Some e1) (Some p1) now1
           = Inr \<lparr>status = 401, body = error_body ''invalid credentials''\<rparr>
       \<and> login L users2 (Some e2) (Some (JStr s)) now2
           = login L users1 (Some e1) (Some p1) now1"
  using assms by (simp add: login_def bcrypt_compare_def)

text \<open>
  C5. Two login attempts with both fields present, one for an email that no user matches and
  one for an existing user, should get the same 401 \<open>invalid credentials\<close> whenever the
  password is not the user's. A password that is present but not a string (the number 5,
  say) tells the two apart: for the unknown email the handler answers 401, for the existing
  user \<open>bcrypt.compare\<close> refuses its argument and the handler throws instead of answering.
\<close>

theorem login_non_string_password:
  assumes "truthy (Some e1)" and "findUserByEmail L users e1 = Inr None"
    and "truthy (Some e2)" and "findUserByEmail L users e2 = Inr (Some u)"
    and "truthy (Some p)" and "typeof (Some p) \<noteq> ''string''"
  shows "login L users (Some e1) (Some p) now
           = Inr \<lparr>status = 401, body = error_body ''invalid credentials''\<rparr>
       \<and> login L users (Some e2) (Some p) now
           = Inl (LibraryError (''Illegal arguments: '' @ typeof (Some p) @ '', string''))"
  using assms by (cases p) (simp_all add: login_def bcrypt_compare_def)

theorem login_non_string_password_witness:
  "login example_libs [example_user] (Some (JStr ''b@x.com'')) (Some (JNum ''5'')) 0
     = Inr \<lparr>status = 401, body = error_body ''invalid credentials''\<rparr>
   \<and> login example_libs [example_user] (Some (JStr ''a@x.com'')) (Some (JNum ''5'')) 0
     = Inl (LibraryError ''Illegal arguments: number, string'')"
proof -
  have t: "truthy (Some (JStr ''b@x.com''))" "truthy (Some (JStr ''a@x.com''))"
    "truthy (Some (JNum ''5''))" "typeof (Some (JNum ''5'')) \<noteq> ''string''"
    by simp_all
  from login_non_string_password
         [OF t(1) find_example_user_other t(2) find_example_user_same t(3) t(4), of 0]
  show ?thesis by simp
qed

text \<open>
  Where the email of the request is found, a request with both fields present is answered
  409 and nothing is written; in a collection whose emails are strings the email is found as
  soon as some stored email has the same lower-case form.
\<close>

lemma register_conflict_found:
  assumes "truthy (Some e)" and "truthy password"
    and "findUserByEmail L users e = Inr (Some u)"
  shows "register L users (Some e) password uuid date now
           = (Inr \<lparr>status = 409, body = error_body ''user already exists''\<rparr>, users)"
proof -
  obtain p where "password = Some p" using assms(2) by (cases password) auto
  then show ?thesis using assms by (simp add: register_def)
qed

lemma register_conflict_strings:
  assumes "truthy password" and "e \<noteq> []"
    and "\<forall>u\<in>set users. \<exists>s. user_email u = JStr s"
    and "\<exists>u\<in>set users. \<exists>s. user_email u = JStr s \<and> lower_case L s = lower_case L e"
  shows "register L users (Some (JStr e)) password uuid date now
           = (Inr \<lparr>status = 409, body = error_body ''user already exists''\<rparr>, users)"
proof -
  from assms(4) obtain u s where u: "u \<in> set users" "user_email u = JStr s"
    "lower_case L s = lower_case L e" by blast
  then have "find (\<lambda>u. toLowerCase L (user_email u) = Inr (lower_case L e)) users \<noteq> None"
    by (auto simp: find_None_iff)
  then obtain x where "findUserByEmail L users (JStr e) = Inr (Some x)"
    using findUserByEmail_strings [OF assms(3), of L e] by auto
  then show ?thesis using assms(1,2) by (intro register_conflict_found) simp_all
qed

lemma register_failure_keeps_users:
  assumes "register L users email password uuid date now = (out, users')"
    and "\<forall>r. out = Inr r \<longrightarrow> status r \<noteq> 200"
  shows "users' = users"
  using assms
  by (auto simp: register_def Let_def split: if_splits option.splits sum.splits)

text \<open>
  C6. Registering again with an email that is already stored should be answered 409, with
  the collection unchanged. The handler accepts any truthy \<open>email\<close>; one that is not a
  string (the number 5, say) is stored by the first registration, because the lookup of an
  empty collection never calls \<open>toLowerCase\<close>, and the second registration with the same
  email throws a \<open>TypeError\<close> in the lookup instead of answering 409. The collection is
  left unchanged by the second request.
\<close>

theorem register_same_email_twice:
  assumes "truthy (Some e)" and "typeof (Some e) \<noteq> ''string''" and "p \<noteq> []"
    and "u = \<lparr>user_id = uuid, user_email = e, passwordHash = hash_string L p,
               createdAt = date\<rparr>"
  shows "register L [] (Some e) (Some (JStr p)) uuid date now
           = (Inr \<lparr>status = 200, body = auth_body (generateToken L u now) u\<rparr>, [u])
       \<and> register L [u] (Some e) (Some (JStr p)) uuid2 date2 now2 = (Inl TypeError, [u])"
  using assms by (cases e) (simp_all add: register_def bcrypt_hash_def Let_def)

theorem register_same_email_twice_witness:
  "register example_libs [] (Some (JNum ''5'')) (Some (JStr ''p1''))
       ''u1'' ''2024-01-01T00:00:00.000Z'' 0
     = (Inr \<lparr>status = 200,
              body = JObj [(''token'', JStr ''tok''),
                           (''user'', JObj [(''id'', JStr ''u1''), (''email'', JNum ''5'')])]\<rparr>,
        [\<lparr>user_id = ''u1'', user_email = JNum ''5'', passwordHash = ''hash:p1'',
          createdAt = ''2024-01-01T00:00:00.000Z''\<rparr>])
   \<and> register example_libs
        [\<lparr>user_id = ''u1'', user_email = JNum ''5'', passwordHash = ''hash:p1'',
          createdAt = ''2024-01-01T00:00:00.000Z''\<rparr>]
        (Some (JNum ''5'')) (Some (JStr ''p1'')) ''u2'' ''2024-02-02T00:00:00.000Z'' 7
     = (Inl TypeError,
        [\<lparr>user_id = ''u1'', user_email = JNum ''5'', passwordHash = ''hash:p1'',
          createdAt = ''2024-01-01T00:00:00.000Z''\<rparr>])"
proof -
  have t: "truthy (Some (JNum ''5''))" "typeof (Some (JNum ''5'')) \<noteq> ''string''"
    "''p1'' \<noteq> []"
    by simp_all
  have u: "\<lparr>user_id = ''u1'', user_email = JNum ''5'', passwordHash = ''hash:p1'',
            createdAt = ''2024-01-01T00:00:00.000Z''\<rparr>
         = \<lparr>user_id = ''u1'', user_email = JNum ''5'',
            passwordHash = hash_string example_libs ''p1'',
            createdAt = ''2024-01-01T00:00:00.000Z''\<rparr>"
    by (simp add: example_libs_def)
  from register_same_email_twice [OF t u, of 0 "''u2''" "''2024-02-02T00:00:00.000Z''" 7]
  show ?thesis by (simp add: auth_body_def generateToken_def example_libs_def)
qed

text \<open>
  C9. After a successful registration the collection on disk is the previous collection
  followed by exactly one new user: no stored record is changed, dropped or moved.
\<close>

theorem register_appends:
  assumes "register L users email password uuid date now = (Inr r, users')"
    and "status r = 200"
  shows "\<exists>e h. email = Some e
           \<and> users' = users @ [\<lparr>user_id = uuid, user_email = e, passwordHash = h,
                                 createdAt = date\<rparr>]"
  using assms
  by (auto simp: register_def Let_def split: if_splits option.splits sum.splits)

theorem register_appends_witness:
  "register example_libs [example_user] (Some (JStr ''b@x.com'')) (Some (JStr ''p2''))
     ''u2'' ''2024-02-02T00:00:00.000Z'' 7
     = (Inr \<lparr>status = 200,
              body = JObj [(''token'', JStr ''tok''),
                           (''user'', JObj [(''id'', JStr ''u2''),
                                            (''email'', JStr ''b@x.com'')])]\<rparr>,
        [example_user,
         \<lparr>user_id = ''u2'', user_email = JStr ''b@x.com'', passwordHash = ''hash:p2'',
          createdAt = ''2024-02-02T00:00:00.000Z''\<rparr>])
   \<and> (\<exists>e h. Some (JStr ''b@x.com'') = Some e
         \<and> [example_user,
             \<lparr>user_id = ''u2'', user_email = JStr ''b@x.com'', passwordHash = ''hash:p2'',
              createdAt = ''2024-02-02T00:00:00.000Z''\<rparr>]
            = [example_user]
              @ [\<lparr>user_id = ''u2'', user_email = e, passwordHash = h,
                  createdAt = ''2024-02-02T00:00:00.000Z''\<rparr>])"
proof -
  have reg: "register example_libs [example_user] (Some (JStr ''b@x.com''))
      (Some (JStr ''p2'')) ''u2'' ''2024-02-02T00:00:00.000Z'' 7
     = (Inr \<lparr>status = 200,
              body = JObj [(''token'', JStr ''tok''),
                           (''user'', JObj [(''id'', JStr ''u2''),
                                            (''email'', JStr ''b@x.com'')])]\<rparr>,
        [example_user,
         \<lparr>user_id = ''u2'', user_email = JStr ''b@x.com'', passwordHash = ''hash:p2'',
          createdAt = ''2024-02-02T00:00:00.000Z''\<rparr>])"
    by (simp add: register_def find_example_user_other bcrypt_hash_def generateToken_def
          auth_body_def del: findUserByEmail.simps)
       (simp add: example_libs_def)
  from register_appends [OF reg] reg show ?thesis by simp
qed

section \<open>Protected routes\<close>

lemma split_no_sep: "sep \<notin> set s \<Longrightarrow> split sep s = [s]"
  by (induction s) auto

lemma split_two: "sep \<notin> set a \<Longrightarrow> sep \<notin> set b \<Longrightarrow> split sep (a @ sep # b) = [a, b]"
  by (induction a) (auto simp: split_no_sep)

lemma authMiddleware_bearer:
  assumes "CHR '' '' \<notin> set tok" and "jwt_verify L tok now = Inr p"
  shows "authMiddleware L now (Some (''Bearer '' @ tok)) = Next p"
proof -
  have "split CHR '' '' (''Bearer'' @ CHR '' '' # tok) = [''Bearer'', tok]"
    by (rule split_two) (use assms(1) in auto)
  then show ?thesis using assms(2) by (simp add: authMiddleware_def)
qed

text \<open>
  What the middleware does reject: no header, an empty one, a header that is not exactly two
  parts around one space, and a second part that does not verify. A rejected request gets
  the 401 response and the route body is not run.
\<close>

lemma authMiddleware_rejects:
  assumes "auth = None \<or> auth = Some []
           \<or> (\<exists>a. auth = Some a \<and> length (split CHR '' '' a) \<noteq> 2)
           \<or> (\<exists>a e. auth = Some a \<and> jwt_verify L (split CHR '' '' a ! 1) now = Inl e)"
  shows "\<exists>r. authMiddleware L now auth = Rejected r \<and> status r = 401"
  using assms by (auto simp: authMiddleware_def Let_def)

lemma rejected_skips_route:
  assumes "authMiddleware L now auth = Rejected r"
  shows "get_review_route L now auth code = Inr r \<and> me_route L now users auth = Inr r"
  using assms by (simp add: get_review_route_def me_route_def)

text \<open>
  C7. A protected route should answer 401 to a header that is not of the form
  \<open>Bearer <token>\<close>. The middleware never looks at the first part of the header: with a
  valid token after any other scheme word, here \<open>Basic\<close>, it calls \<open>next\<close> and \<open>/me\<close>
  answers 200.
\<close>

theorem other_scheme_accepted:
  "authMiddleware example_libs 0 (Some ''Basic tok'')
     = Next \<lparr>payload_id = ''u1'', payload_email = JStr ''a@x.com''\<rparr>
   \<and> me_route example_libs 0 [example_user] (Some ''Basic tok'')
     = Inr \<lparr>status = 200,
            body = JObj [(''user'', JObj [(''id'', JStr ''u1''), (''email'', JStr ''a@x.com''),
                                           (''createdAt'', JStr ''2024-01-01T00:00:00.000Z'')])]\<rparr>"
  by (simp add: authMiddleware_def me_route_def me_def example_libs_def example_user_def)

lemma find_first:
  "distinct (map user_id users) \<Longrightarrow> u \<in> set users \<Longrightarrow>
     find (\<lambda>x. user_id x = user_id u) (users @ added) = Some u"
  by (induction users) (auto simp: image_iff)

lemma find_fresh:
  "i \<notin> user_id ` set users \<Longrightarrow> user_id u = i \<Longrightarrow>
     find (\<lambda>x. user_id x = i) (users @ u # added) = Some u"
  by (induction users) auto

lemma me_of_token:
  assumes "jwt_round_trip L \<lparr>payload_id = user_id u, payload_email = user_email u\<rparr> now later"
    and "find (\<lambda>x. user_id x = user_id u) store = Some u"
  shows "me_route L later store (Some (''Bearer '' @ generateToken L u now))
           = Inr \<lparr>status = 200,
                  body = JObj [(''user'', JObj [(''id'', JStr (user_id u)),
                                                 (''email'', user_email u),
                                                 (''createdAt'', JStr (createdAt u))])]\<rparr>"
proof -
  let ?p = "\<lparr>payload_id = user_id u, payload_email = user_email u\<rparr>"
  have "authMiddleware L later (Some (''Bearer '' @ jwt_sign L ?p now)) = Next ?p"
    using assms(1) by (intro authMiddleware_bearer) (simp_all add: jwt_round_trip_def)
  then show ?thesis using assms(2) by (simp add: me_route_def me_def generateToken_def)
qed

lemma register_round_trip:
  assumes reg: "register L users email password uuid date now = (Inr r, users')"
    and ok: "status r = 200"
    and fresh: "uuid \<notin> user_id ` set users"
    and jwt: "\<forall>e. email = Some e \<longrightarrow>
                jwt_round_trip L \<lparr>payload_id = uuid, payload_email = e\<rparr> now later"
  shows "\<exists>tok e c.
           body r = JObj [(''token'', JStr tok),
                          (''user'', JObj [(''id'', JStr uuid), (''email'', e)])]
         \<and> me_route L later (users' @ added) (Some (''Bearer '' @ tok))
             = Inr \<lparr>status = 200,
                    body = JObj [(''user'', JObj [(''id'', JStr uuid), (''email'', e),
                                                   (''createdAt'', JStr c)])]\<rparr>"
proof -
  from reg ok obtain e h where e: "email = Some e"
    and users': "users' = users @ [\<lparr>user_id = uuid, user_email = e, passwordHash = h,
                                    createdAt = date\<rparr>]"
    and r: "r = \<lparr>status = 200,
                 body = auth_body
                   (generateToken L \<lparr>user_id = uuid, user_email = e, passwordHash = h,
                                      createdAt = date\<rparr> now)
                   \<lparr>user_id = uuid, user_email = e, passwordHash = h, createdAt = date\<rparr>\<rparr>"
    by (auto simp: register_def Let_def split: if_splits option.splits sum.splits)
  let ?u = "\<lparr>user_id = uuid, user_email = e, passwordHash = h, createdAt = date\<rparr>"
  have f: "find (\<lambda>x. user_id x = user_id ?u) (users' @ added) = Some ?u"
    using find_fresh [OF fresh, of ?u added] by (simp add: users')
  have j: "jwt_round_trip L \<lparr>payload_id = user_id ?u, payload_email = user_email ?u\<rparr> now later"
    using jwt e by simp
  from me_of_token [OF j f] show ?thesis
    by (simp add: r auth_body_def)
qed

lemma login_round_trip:
  assumes lg: "login L users email password now = Inr r"
    and ok: "status r = 200"
    and ids: "distinct (map user_id users)"
    and jwt: "\<forall>u\<in>set users.
                jwt_round_trip L \<lparr>payload_id = user_id u, payload_email = user_email u\<rparr>
                  now later"
  shows "\<exists>tok i e c.
           body r = JObj [(''token'', JStr tok),
                          (''user'', JObj [(''id'', JStr i), (''email'', e)])]
         \<and> me_route L later (users @ added) (Some (''Bearer '' @ tok))
             = Inr \<lparr>status = 200,
                    body = JObj [(''user'', JObj [(''id'', JStr i), (''email'', e),
                                                   (''createdAt'', JStr c)])]\<rparr>"
proof -
  from lg ok obtain e u where fu: "findUserByEmail L users e = Inr (Some u)"
    and r: "r = \<lparr>status = 200, body = auth_body (generateToken L u now) u\<rparr>"
    by (auto simp: login_def split: if_splits option.splits sum.splits)
  have mem: "u \<in> set users" using fu by (rule findUserByEmail_member)
  have f: "find (\<lambda>x. user_id x = user_id u) (users @ added) = Some u"
    using ids mem by (rule find_first)
  have j: "jwt_round_trip L \<lparr>payload_id = user_id u, payload_email = user_email u\<rparr> now later"
    using jwt mem by blast
  from me_of_token [OF j f] show ?thesis
    by (simp add: r auth_body_def)
qed

text \<open>
  C8. A token issued by a successful registration or login, presented as
  \<open>Bearer <token>\<close> to \<open>/me\<close> while the library still verifies it, gets a 200 response
  with the same user id and email as the response that issued it. The collection may have
  grown by later registrations in between. The ids of the collection are distinct and the id
  of a registration is fresh, as \<open>uuidv4\<close> provides.
\<close>

theorem token_round_trip:
  "(register L users email password uuid date now = (Inr r, users') \<and> status r = 200
      \<and> uuid \<notin> user_id ` set users
      \<and> (\<forall>e. email = Some e \<longrightarrow>
            jwt_round_trip L \<lparr>payload_id = uuid, payload_email = e\<rparr> now later)
    \<longrightarrow> (\<exists>tok e c.
           body r = JObj [(''token'', JStr tok),
                          (''user'', JObj [(''id'', JStr uuid), (''email'', e)])]
         \<and> me_route L later (users' @ added) (Some (''Bearer '' @ tok))
             = Inr \<lparr>status = 200,
                    body = JObj [(''user'', JObj [(''id'', JStr uuid), (''email'', e),
                                                   (''createdAt'', JStr c)])]\<rparr>))
   \<and> (login L users email password now = Inr r \<and> status r = 200
      \<and> distinct (map user_id users)
      \<and> (\<forall>u\<in>set users.
            jwt_round_trip L \<lparr>payload_id = user_id u, payload_email = user_email u\<rparr>
              now later)
    \<longrightarrow> (\<exists>tok i e c.
           body r = JObj [(''token'', JStr tok),
                          (''user'', JObj [(''id'', JStr i), (''email'', e)])]
         \<and> me_route L later (users @ added) (Some (''Bearer '' @ tok))
             = Inr \<lparr>status = 200,
                    body = JObj [(''user'', JObj [(''id'', JStr i), (''email'', e),
                                                   (''createdAt'', JStr c)])]\<rparr>))"
proof (intro conjI impI)
  assume "register L users email password uuid date now = (Inr r, users') \<and> status r = 200
      \<and> uuid \<notin> user_id ` set users
      \<and> (\<forall>e. email = Some e \<longrightarrow>
            jwt_round_trip L \<lparr>payload_id = uuid, payload_email = e\<rparr> now later)"
  then show "\<exists>tok e c.
           body r = JObj [(''token'', JStr tok),
                          (''user'', JObj [(''id'', JStr uuid), (''email'', e)])]
         \<and> me_route L later (users' @ added) (Some (''Bearer '' @ tok))
             = Inr \<lparr>status = 200,
                    body = JObj [(''user'', JObj [(''id'', JStr uuid), (''email'', e),
                                                   (''createdAt'', JStr c)])]\<rparr>"
    using register_round_trip [of L users email password uuid date now r users' later added]
    by simp
next
  assume "login L users email password now = Inr r \<and> status r = 200
      \<and> distinct (map user_id users)
      \<and> (\<forall>u\<in>set users.
            jwt_round_trip L \<lparr>payload_id = user_id u, payload_email = user_email u\<rparr>
              now later)"
  then show "\<exists>tok i e c.
           body r = JObj [(''token'', JStr tok),
                          (''user'', JObj [(''id'', JStr i), (''email'', e)])]
         \<and> me_route L later (users @ added) (Some (''Bearer '' @ tok))
             = Inr \<lparr>status = 200,
                    body = JObj [(''user'', JObj [(''id'', JStr i), (''email'', e),
                                                   (''createdAt'', JStr c)])]\<rparr>"
    using login_round_trip [of L users email password now r later added]
    by simp
qed

theorem token_round_trip_witness:
  "register example_libs [] (Some (JStr ''a@x.com'')) (Some (JStr ''p1''))
       ''u1'' ''2024-01-01T00:00:00.000Z'' 0
     = (Inr \<lparr>status = 200, body = auth_body ''tok'' example_user\<rparr>, [example_user])
   \<and> ''u1'' \<notin> user_id ` set []
   \<and> jwt_round_trip example_libs \<lparr>payload_id = ''u1'', payload_email = JStr ''a@x.com''\<rparr>
        0 3600
   \<and> (\<exists>tok e c.
         body \<lparr>status = 200, body = auth_body ''tok'' example_user\<rparr>
           = JObj [(''token'', JStr tok),
                   (''user'', JObj [(''id'', JStr ''u1''), (''email'', e)])]
       \<and> me_route example_libs 3600 ([example_user] @ []) (Some (''Bearer '' @ tok))
           = Inr \<lparr>status = 200,
                  body = JObj [(''user'', JObj [(''id'', JStr ''u1''), (''email'', e),
                                                 (''createdAt'', JStr c)])]\<rparr>)
   \<and> login example_libs [example_user] (Some (JStr ''A@X.com'')) (Some (JStr ''p1'')) 10
     = Inr \<lparr>status = 200, body = auth_body ''tok'' example_user\<rparr>
   \<and> distinct (map user_id [example_user])
   \<and> jwt_round_trip example_libs
         \<lparr>payload_id = user_id example_user, payload_email = user_email example_user\<rparr>
         10 3600
   \<and> (\<exists>tok i e c.
         body \<lparr>status = 200, body = auth_body ''tok'' example_user\<rparr>
           = JObj [(''token'', JStr tok),
                   (''user'', JObj [(''id'', JStr i), (''email'', e)])]
       \<and> me_route example_libs 3600 ([example_user] @ []) (Some (''Bearer '' @ tok))
           = Inr \<lparr>status = 200,
                  body = JObj [(''user'', JObj [(''id'', JStr i), (''email'', e),
                                                 (''createdAt'', JStr c)])]\<rparr>)"
proof -
  let ?r = "\<lparr>status = 200, body = auth_body ''tok'' example_user\<rparr>"
  have reg: "register example_libs [] (Some (JStr ''a@x.com'')) (Some (JStr ''p1''))
       ''u1'' ''2024-01-01T00:00:00.000Z'' 0 = (Inr ?r, [example_user])"
    by (simp add: register_def bcrypt_hash_def example_libs_def generateToken_def
          example_user_def Let_def)
  have fresh: "''u1'' \<notin> user_id ` set []" by simp
  have j0: "jwt_round_trip example_libs
              \<lparr>payload_id = ''u1'', payload_email = JStr ''a@x.com''\<rparr> 0 3600"
    by (simp add: jwt_round_trip_def example_libs_def)
  have lg: "login example_libs [example_user] (Some (JStr ''A@X.com'')) (Some (JStr ''p1'')) 10
              = Inr ?r"
    by (simp add: login_def find_example_user_upper bcrypt_compare_def generateToken_def
          del: findUserByEmail.simps)
       (simp add: example_libs_def example_user_def)
  have ids: "distinct (map user_id [example_user])" by simp
  have j1: "\<forall>u\<in>set [example_user].
              jwt_round_trip example_libs
                \<lparr>payload_id = user_id u, payload_email = user_email u\<rparr> 10 3600"
    by (simp add: jwt_round_trip_def example_libs_def example_user_def)
  have a: "\<exists>tok e c.
         body ?r = JObj [(''token'', JStr tok),
                   (''user'', JObj [(''id'', JStr ''u1''), (''email'', e)])]
       \<and> me_route example_libs 3600 ([example_user] @ []) (Some (''Bearer '' @ tok))
           = Inr \<lparr>status = 200,
                  body = JObj [(''user'', JObj [(''id'', JStr ''u1''), (''email'', e),
                                                 (''createdAt'', JStr c)])]\<rparr>"
    using token_round_trip [of example_libs "[]" "Some (JStr ''a@x.com'')"
        "Some (JStr ''p1'')" "''u1''" "''2024-01-01T00:00:00.000Z''" 0 ?r "[example_user]"
        3600 "[]"] reg fresh j0
    by simp
  have b: "\<exists>tok i e c.
         body ?r = JObj [(''token'', JStr tok),
                   (''user'', JObj [(''id'', JStr i), (''email'', e)])]
       \<and> me_route example_libs 3600 ([example_user] @ []) (Some (''Bearer '' @ tok))
           = Inr \<lparr>status = 200,
                  body = JObj [(''user'', JObj [(''id'', JStr i), (''email'', e),
                                                 (''createdAt'', JStr c)])]\<rparr>"
    using token_round_trip [of example_libs "[example_user]" "Some (JStr ''A@X.com'')"
        "Some (JStr ''p1'')" _ _ 10 ?r _ 3600 "[]"] lg ids j1
    by simp
  from j1 have j2: "jwt_round_trip example_libs
      \<lparr>payload_id = user_id example_user, payload_email = user_email example_user\<rparr>
      10 3600"
    by simp
  from reg fresh j0 a lg ids j2 b show ?thesis by blast
qed

text \<open>The guard on \<open>code\<close>, as an expression, lets exactly the non-empty strings through.\<close>

lemma code_guard_condition:
  "(\<not> truthy code \<or> typeof code \<noteq> ''string'') = (\<not> (\<exists>s. code = Some (JStr s) \<and> s \<noteq> []))"
  by (cases code rule: typeof.cases) auto

text \<open>
  C10. Behind the middleware, \<open>/ai/get-review\<close> should answer 400 \<open>code required\<close>
  whenever \<open>code\<close> is not a non-empty string. The guard is written that way, but it sits
  in the handler whose \<open>hasConsole\<close> literal is not a valid pattern: the handler fails
  with the \<open>SyntaxError\<close> for every request that passes the middleware, also for one with
  no \<open>code\<close>, and no 400 is sent.
\<close>

theorem code_guard_never_answers:
  assumes "authMiddleware L now auth = Next reqUser"
  shows "get_review_route L now auth code = Inl (RegexSyntaxError ''Unterminated group'')"
  using assms by (simp add: get_review_route_def get_review_throws)

theorem code_guard_never_answers_witness:
  "authMiddleware example_libs 0 (Some ''Bearer tok'')
     = Next \<lparr>payload_id = ''u1'', payload_email = JStr ''a@x.com''\<rparr>
   \<and> get_review_route example_libs 0 (Some ''Bearer tok'') None
       = Inl (RegexSyntaxError ''Unterminated group'')
   \<and> get_review_route example_libs 0 (Some ''Bearer tok'') (Some (JNum ''5''))
       = Inl (RegexSyntaxError ''Unterminated group'')
   \<and> get_review_route example_libs 0 (Some ''Bearer tok'') (Some (JStr []))
       = Inl (RegexSyntaxError ''Unterminated group'')"
proof -
  have a: "authMiddleware example_libs 0 (Some ''Bearer tok'')
     = Next \<lparr>payload_id = ''u1'', payload_email = JStr ''a@x.com''\<rparr>"
    by (simp add: authMiddleware_def example_libs_def)
  from code_guard_never_answers [OF a, of None]
    code_guard_never_answers [OF a, of "Some (JNum ''5'')"]
    code_guard_never_answers [OF a, of "Some (JStr [])"] a
  show ?thesis by simp
qed

end
